theory Spec2Isabelle
  imports Main
begin

section \<open>Lead intake: request schema, handler and store call\<close>

text \<open>
  The development follows \<^verbatim>\<open>src/main.py\<close>: the request schema \<^verbatim>\<open>LeadRequest\<close>
  (lines 125-136) and the handler \<^verbatim>\<open>create_lead\<close> (lines 138-144) registered for
  \<^verbatim>\<open>POST /api/leads\<close>. The schema is a declaration; what it checks is what
  pydantic (version 2, which provides \<^verbatim>\<open>model_dump\<close>) does for the declared
  annotations, in its default (lax) mode and with its default configuration.
\<close>

subsection \<open>Decoded request bodies\<close>

text \<open>
  The body of a request after \<^verbatim>\<open>json.loads\<close>: \<^verbatim>\<open>None\<close>, \<^verbatim>\<open>bool\<close>, \<^verbatim>\<open>int\<close>
  (unbounded), \<^verbatim>\<open>float\<close>, \<^verbatim>\<open>str\<close>, \<^verbatim>\<open>list\<close> and \<^verbatim>\<open>dict\<close>. Floating-point values
  are kept opaque (type \<open>'f\<close>). A payload is the top-level \<^verbatim>\<open>dict\<close>, keyed by strings.
\<close>

datatype 'f json =
    JNull
  | JBool bool
  | JInt int
  | JFloat 'f
  | JStr string
  | JList "'f json list"
  | JObj "(string \<times> 'f json) list"

type_synonym 'f payload = "string \<rightharpoonup> 'f json"

subsection \<open>Validation errors\<close>

text \<open>
  A pydantic \<^verbatim>\<open>ValidationError\<close> is a non-empty list of entries, each with a location
  (\<^verbatim>\<open>loc\<close>: a field name, followed by an index for an element of a list field) and the
  violated rule (\<^verbatim>\<open>type\<close>, such as \<^verbatim>\<open>missing\<close> or \<^verbatim>\<open>string_type\<close>).
\<close>

datatype loc_item = Key string | Index nat

type_synonym rule = string
type_synonym error_entry = "loc_item list \<times> rule"
type_synonym 'a validated = "error_entry list + 'a"

subsection \<open>Scalar conversions of the libraries\<close>

text \<open>
  Three conversions are library code outside this repository and are parameters of the
  model:
  \<^item> \<open>validate_email\<close>: the address check behind \<^verbatim>\<open>EmailStr\<close> (package
    email-validator, without deliverability check); \<open>None\<close> when the text is not an
    address, otherwise the normalised address that pydantic stores;
  \<^item> \<open>str_as_int\<close>: lax conversion of a \<^verbatim>\<open>str\<close> to \<^verbatim>\<open>int\<close>: the rule violated or the
    integer;
  \<^item> \<open>float_as_int\<close>: lax conversion of a \<^verbatim>\<open>float\<close> to \<^verbatim>\<open>int\<close>, likewise.
\<close>

record 'f coercions =
  validate_email :: "string \<Rightarrow> string option"
  str_as_int :: "string \<Rightarrow> rule + int"
  float_as_int :: "'f \<Rightarrow> rule + int"

subsection \<open>Validators of the annotations used by \<^verbatim>\<open>LeadRequest\<close>\<close>

text \<open>\<^verbatim>\<open>str\<close>: only a \<^verbatim>\<open>str\<close> is accepted (numbers are not converted); any
  string, the empty one included, since the annotation carries no constraint.\<close>

fun str_validator :: "'f json \<Rightarrow> string validated" where
  "str_validator (JStr s) = Inr s"
| "str_validator _ = Inl [([], ''string_type'')]"

text \<open>\<^verbatim>\<open>EmailStr\<close>: a \<^verbatim>\<open>str\<close>, then the address check; the normalised address is kept.\<close>

definition email_validator :: "'f coercions \<Rightarrow> 'f json \<Rightarrow> string validated" where
  "email_validator L x =
     (case str_validator x of
        Inl es \<Rightarrow> Inl es
      | Inr s \<Rightarrow> (case validate_email L s of
                   None \<Rightarrow> Inl [([], ''value_error'')]
                 | Some e \<Rightarrow> Inr e))"

text \<open>\<^verbatim>\<open>int\<close> in lax mode: an \<^verbatim>\<open>int\<close> as it is (no bound: the annotation in
  \<^verbatim>\<open>LeadRequest\<close> has no \<^verbatim>\<open>ge\<close>), a \<^verbatim>\<open>bool\<close> as 0 or 1, a \<^verbatim>\<open>float\<close> or \<^verbatim>\<open>str\<close>
  through the library conversion; nothing else.\<close>

fun int_validator :: "'f coercions \<Rightarrow> 'f json \<Rightarrow> int validated" where
  "int_validator L (JInt i) = Inr i"
| "int_validator L (JBool b) = Inr (if b then 1 else 0)"
| "int_validator L (JFloat x) =
     (case float_as_int L x of Inl r \<Rightarrow> Inl [([], r)] | Inr i \<Rightarrow> Inr i)"
| "int_validator L (JStr s) =
     (case str_as_int L s of Inl r \<Rightarrow> Inl [([], r)] | Inr i \<Rightarrow> Inr i)"
| "int_validator L _ = Inl [([], ''int_type'')]"

text \<open>\<^verbatim>\<open>List[str]\<close>: a list whose elements are all \<^verbatim>\<open>str\<close>; the errors of all
  elements are collected, each under its index.\<close>

fun list_str_items :: "nat \<Rightarrow> 'f json list \<Rightarrow> string list validated" where
  "list_str_items i [] = Inr []"
| "list_str_items i (x # xs) =
     (case (str_validator x, list_str_items (Suc i) xs) of
        (Inr s, Inr ss) \<Rightarrow> Inr (s # ss)
      | (Inr s, Inl es) \<Rightarrow> Inl es
      | (Inl e, Inr ss) \<Rightarrow> Inl (map (\<lambda>(l, r). (Index i # l, r)) e)
      | (Inl e, Inl es) \<Rightarrow> Inl (map (\<lambda>(l, r). (Index i # l, r)) e @ es))"

fun list_str_validator :: "'f json \<Rightarrow> string list validated" where
  "list_str_validator (JList xs) = list_str_items 0 xs"
| "list_str_validator _ = Inl [([], ''list_type'')]"

text \<open>\<^verbatim>\<open>Optional[T]\<close>: \<^verbatim>\<open>None\<close> is accepted as \<^verbatim>\<open>None\<close>, anything else goes to
  the validator of \<^verbatim>\<open>T\<close>.\<close>

fun nullable :: "('f json \<Rightarrow> 'a validated) \<Rightarrow> 'f json \<Rightarrow> 'a option validated" where
  "nullable v JNull = Inr None"
| "nullable v x = (case v x of Inl es \<Rightarrow> Inl es | Inr a \<Rightarrow> Inr (Some a))"

subsection \<open>Fields\<close>

definition at_field :: "string \<Rightarrow> 'a validated \<Rightarrow> 'a validated" where
  "at_field k r = (case r of Inl es \<Rightarrow> Inl (map (\<lambda>(l, ru). (Key k # l, ru)) es) | Inr a \<Rightarrow> Inr a)"

text \<open>A field without default (\<^verbatim>\<open>name: str\<close>): an absent key is the error
  \<^verbatim>\<open>missing\<close>.\<close>

definition required_field ::
  "('f json \<Rightarrow> 'a validated) \<Rightarrow> 'f payload \<Rightarrow> string \<Rightarrow> 'a validated" where
  "required_field v p k =
     (case p k of None \<Rightarrow> Inl [([Key k], ''missing'')] | Some x \<Rightarrow> at_field k (v x))"

text \<open>A field declared \<^verbatim>\<open>Optional[T] = None\<close>: an absent key takes the default
  \<^verbatim>\<open>None\<close>, which is not validated.\<close>

definition optional_field ::
  "('f json \<Rightarrow> 'a validated) \<Rightarrow> 'f payload \<Rightarrow> string \<Rightarrow> 'a option validated" where
  "optional_field v p k =
     (case p k of None \<Rightarrow> Inr None | Some x \<Rightarrow> at_field k (nullable v x))"

text \<open>Fields are validated one after the other and every error is reported; a value
  is built only when no field failed.\<close>

fun ap :: "('a \<Rightarrow> 'b) validated \<Rightarrow> 'a validated \<Rightarrow> 'b validated" where
  "ap (Inr f) (Inr a) = Inr (f a)"
| "ap (Inr f) (Inl es) = Inl es"
| "ap (Inl es) (Inr a) = Inl es"
| "ap (Inl es) (Inl es') = Inl (es @ es')"

subsection \<open>The schema \<^verbatim>\<open>LeadRequest\<close>\<close>

record LeadRequest =
  name :: string
  email :: string
  phone :: "string option"
  company :: "string option"
  location :: "string option"
  unit_types :: "string list option"
  units_count :: "int option"
  capacity_tonnage :: "string option"
  preferred_interval :: "string option"
  pain_points :: "string list option"
  message :: "string option"

definition optional_fields :: "string list" where
  "optional_fields =
     [''phone'', ''company'', ''location'', ''unit_types'', ''units_count'',
      ''capacity_tonnage'', ''preferred_interval'', ''pain_points'', ''message'']"

definition model_fields :: "string list" where
  "model_fields =
     [''name'', ''email'', ''phone'', ''company'', ''location'', ''unit_types'',
      ''units_count'', ''capacity_tonnage'', ''preferred_interval'', ''pain_points'',
      ''message'']"

definition build :: "string \<Rightarrow> string \<Rightarrow> string option \<Rightarrow> string option \<Rightarrow> string option \<Rightarrow>
    string list option \<Rightarrow> int option \<Rightarrow> string option \<Rightarrow> string option \<Rightarrow>
    string list option \<Rightarrow> string option \<Rightarrow> LeadRequest" where
  "build n e ph co lo ut uc ct pi pp m =
     \<lparr>name = n, email = e, phone = ph, company = co, location = lo, unit_types = ut,
      units_count = uc, capacity_tonnage = ct, preferred_interval = pi, pain_points = pp,
      message = m\<rparr>"

text \<open>Construction of a \<^verbatim>\<open>LeadRequest\<close> from the payload. Only the eleven declared
  keys are read (the default \<^verbatim>\<open>extra='ignore'\<close>).\<close>

definition model_validate :: "'f coercions \<Rightarrow> 'f payload \<Rightarrow> LeadRequest validated" where
  "model_validate L p =
     ap (ap (ap (ap (ap (ap (ap (ap (ap (ap (ap (Inr build)
       (required_field str_validator p ''name''))
       (required_field (email_validator L) p ''email''))
       (optional_field str_validator p ''phone''))
       (optional_field str_validator p ''company''))
       (optional_field str_validator p ''location''))
       (optional_field list_str_validator p ''unit_types''))
       (optional_field (int_validator L) p ''units_count''))
       (optional_field str_validator p ''capacity_tonnage''))
       (optional_field str_validator p ''preferred_interval''))
       (optional_field list_str_validator p ''pain_points''))
       (optional_field str_validator p ''message'')"

subsection \<open>\<^verbatim>\<open>model_dump\<close>\<close>

datatype doc_value = DNone | DStr string | DInt int | DList "doc_value list"

type_synonym document = "(string \<times> doc_value) list"

definition dump_opt :: "('a \<Rightarrow> doc_value) \<Rightarrow> 'a option \<Rightarrow> doc_value" where
  "dump_opt f x = (case x of None \<Rightarrow> DNone | Some a \<Rightarrow> f a)"

definition dump_strs :: "string list \<Rightarrow> doc_value" where
  "dump_strs xs = DList (map DStr xs)"

text \<open>\<^verbatim>\<open>lead.model_dump()\<close>: every declared field, in declaration order, \<^verbatim>\<open>None\<close>
  included.\<close>

definition model_dump :: "LeadRequest \<Rightarrow> document" where
  "model_dump l =
     [(''name'', DStr (name l)),
      (''email'', DStr (email l)),
      (''phone'', dump_opt DStr (phone l)),
      (''company'', dump_opt DStr (company l)),
      (''location'', dump_opt DStr (location l)),
      (''unit_types'', dump_opt dump_strs (unit_types l)),
      (''units_count'', dump_opt DInt (units_count l)),
      (''capacity_tonnage'', dump_opt DStr (capacity_tonnage l)),
      (''preferred_interval'', dump_opt DStr (preferred_interval l)),
      (''pain_points'', dump_opt dump_strs (pain_points l)),
      (''message'', dump_opt DStr (message l))]"

subsection \<open>The store and the handler\<close>

text \<open>
  \<^verbatim>\<open>create_document\<close> is imported from the module \<^verbatim>\<open>database\<close> and is a parameter:
  given the collection name, the document and the state of the store, it either raises
  (\<open>Inl\<close> of the exception's text \<^verbatim>\<open>str(e)\<close>) or returns the identifier, and leaves
  a new state. The world records every call made to it.
\<close>

type_synonym ('s, 'i) create_document = "string \<Rightarrow> document \<Rightarrow> 's \<Rightarrow> (string + 'i) \<times> 's"

record 's world =
  store :: 's
  calls :: "(string \<times> document) list"

definition call_create_document ::
  "('s, 'i) create_document \<Rightarrow> string \<Rightarrow> document \<Rightarrow> 's world \<Rightarrow> (string + 'i) \<times> 's world" where
  "call_create_document cd coll doc w =
     (case cd coll doc (store w) of
        (r, s') \<Rightarrow> (r, \<lparr>store = s', calls = calls w @ [(coll, doc)]\<rparr>))"

datatype 'i body_value = BStr string | BId 'i

datatype 'i outcome =
    Return "(string \<times> 'i body_value) list"
  | HTTPException nat string

text \<open>\<^verbatim>\<open>create_lead\<close>, lines 139-144.\<close>

definition create_lead ::
  "('s, 'i) create_document \<Rightarrow> LeadRequest \<Rightarrow> 's world \<Rightarrow> 'i outcome \<times> 's world" where
  "create_lead cd lead w =
     (case call_create_document cd ''lead'' (model_dump lead) w of
        (Inr lead_id, w') \<Rightarrow> (Return [(''status'', BStr ''success''), (''id'', BId lead_id)], w')
      | (Inl e, w') \<Rightarrow> (HTTPException 500 e, w'))"

record 'i response =
  status_code :: nat
  body :: "(string \<times> 'i body_value) list"

definition render :: "'i outcome \<Rightarrow> 'i response" where
  "render out =
     (case out of
        Return b \<Rightarrow> \<lparr>status_code = 200, body = b\<rparr>
      | HTTPException c d \<Rightarrow> \<lparr>status_code = c, body = [(''detail'', BStr d)]\<rparr>)"

text \<open>
  \<^verbatim>\<open>@app.post("/api/leads")\<close>: the framework builds the \<^verbatim>\<open>LeadRequest\<close> argument
  from the body. When that fails it raises \<^verbatim>\<open>RequestValidationError\<close> with the error
  entries, each located under \<^verbatim>\<open>body\<close>, and the handler is not called. The model
  stops there: how the framework turns that error into a response (status 422 by
  default, with the message and the echoed input of every entry, and a failure of its
  own when that input cannot be written as JSON) is not part of this repository.
  Otherwise the handler runs and what it returns or raises is sent.
\<close>

datatype 'i reply =
    RequestValidationError "error_entry list"
  | Sent "'i response"

definition post_api_leads ::
  "'f coercions \<Rightarrow> ('s, 'i) create_document \<Rightarrow> 'f payload \<Rightarrow> 's world \<Rightarrow> 'i reply \<times> 's world" where
  "post_api_leads L cd p w =
     (case model_validate L p of
        Inl es \<Rightarrow> (RequestValidationError (map (\<lambda>(l, r). (Key ''body'' # l, r)) es), w)
      | Inr lead \<Rightarrow> (case create_lead cd lead w of (out, w') \<Rightarrow> (Sent (render out), w')))"

text \<open>The sibling endpoint \<^verbatim>\<open>test_database\<close> (lines 170 and 176) reports an exception
  as \<^verbatim>\<open>str(e)[:50]\<close>.\<close>

definition test_database_error_text :: "string \<Rightarrow> string" where
  "test_database_error_text e = take 50 e"

subsection \<open>Reading results, and instances for concrete evaluation\<close>

text \<open>The error entries of a validation result (none when it succeeded).\<close>

definition errors_of :: "'a validated \<Rightarrow> error_entry list" where
  "errors_of r = (case r of Inl es \<Rightarrow> es | Inr a \<Rightarrow> [])"

text \<open>
  To evaluate the model on the payloads of the specification's scenarios the parameters
  need values. \<open>example_coercions\<close> gives the answers of the libraries on the inputs
  of those scenarios only: the address \<^verbatim>\<open>jane@example.com\<close> is valid and is already
  normalised; \<^verbatim>\<open>not-an-email\<close> is not an address. It rejects everything else, which no
  statement below relies on. No payload of the scenarios holds a float, so \<open>'f\<close> is
  \<open>unit\<close>.
\<close>

definition example_coercions :: "unit coercions" where
  "example_coercions =
     \<lparr>validate_email = (\<lambda>s. if s = ''jane@example.com'' then Some s else None),
      str_as_int = (\<lambda>s. Inl ''int_parsing''),
      float_as_int = (\<lambda>x. Inl ''int_from_float'')\<rparr>"

text \<open>Two stores: one that keeps the documents in a list and returns the position as
  identifier, and one that always raises, with a text of the kind a database driver
  gives when the server is not reachable.\<close>

definition memory_store :: "((string \<times> document) list, nat) create_document" where
  "memory_store coll doc docs = (Inr (length docs), docs @ [(coll, doc)])"

definition store_error_text :: string where
  "store_error_text =
     ''db-prod-1.internal:27017: [Errno 111] Connection refused, Timeout: 30s, Topology Description: <TopologyDescription id: 65f0c1a2, topology_type: Unknown, servers: [<ServerDescription (db-prod-1.internal, 27017) server_type: Unknown, rtt: None>]>''"

definition timeout_store :: "((string \<times> document) list, nat) create_document" where
  "timeout_store coll doc docs = (Inl store_error_text, docs)"

definition empty_world :: "(string \<times> document) list world" where
  "empty_world = \<lparr>store = [], calls = []\<rparr>"

definition jane_payload :: "'f payload" where
  "jane_payload = [''name'' \<mapsto> JStr ''Jane Doe'', ''email'' \<mapsto> JStr ''jane@example.com'']"

definition jane_lead :: LeadRequest where
  "jane_lead = build ''Jane Doe'' ''jane@example.com'' None None None None None None None None None"

definition empty_name_payload :: "unit payload" where
  "empty_name_payload = [''name'' \<mapsto> JStr [], ''email'' \<mapsto> JStr ''jane@example.com'']"

definition empty_name_lead :: LeadRequest where
  "empty_name_lead = build [] ''jane@example.com'' None None None None None None None None None"

definition malformed_email_payload :: "unit payload" where
  "malformed_email_payload =
     [''name'' \<mapsto> JStr ''Jane Doe'', ''email'' \<mapsto> JStr ''not-an-email'']"

definition negative_units_payload :: "unit payload" where
  "negative_units_payload =
     [''name'' \<mapsto> JStr ''Jane Doe'', ''email'' \<mapsto> JStr ''jane@example.com'',
      ''units_count'' \<mapsto> JInt (- 5)]"

definition negative_units_lead :: LeadRequest where
  "negative_units_lead =
     build ''Jane Doe'' ''jane@example.com'' None None None None (Some (- 5)) None None None None"

section \<open>Properties\<close>

subsection \<open>Combining field results\<close>

lemma errors_of_simps [simp]: "errors_of (Inl es) = es" "errors_of (Inr a) = []"
  by (simp_all add: errors_of_def)

lemma ap_Inr_iff: "ap f x = Inr y \<longleftrightarrow> (\<exists>g a. f = Inr g \<and> x = Inr a \<and> y = g a)"
  by (cases f; cases x) auto

lemma errors_of_ap: "errors_of (ap f x) = errors_of f @ errors_of x"
  by (cases f; cases x) simp_all

lemma errors_of_model_validate:
  "errors_of (model_validate L p) =
     errors_of (required_field str_validator p ''name'') @
     errors_of (required_field (email_validator L) p ''email'') @
     errors_of (optional_field str_validator p ''phone'') @
     errors_of (optional_field str_validator p ''company'') @
     errors_of (optional_field str_validator p ''location'') @
     errors_of (optional_field list_str_validator p ''unit_types'') @
     errors_of (optional_field (int_validator L) p ''units_count'') @
     errors_of (optional_field str_validator p ''capacity_tonnage'') @
     errors_of (optional_field str_validator p ''preferred_interval'') @
     errors_of (optional_field list_str_validator p ''pain_points'') @
     errors_of (optional_field str_validator p ''message'')"
  by (simp add: model_validate_def errors_of_ap)

lemma model_validate_Inr_iff:
  "model_validate L p = Inr lead \<longleftrightarrow>
     (\<exists>n e ph co lo ut uc ct pi pp m.
        required_field str_validator p ''name'' = Inr n \<and>
        required_field (email_validator L) p ''email'' = Inr e \<and>
        optional_field str_validator p ''phone'' = Inr ph \<and>
        optional_field str_validator p ''company'' = Inr co \<and>
        optional_field str_validator p ''location'' = Inr lo \<and>
        optional_field list_str_validator p ''unit_types'' = Inr ut \<and>
        optional_field (int_validator L) p ''units_count'' = Inr uc \<and>
        optional_field str_validator p ''capacity_tonnage'' = Inr ct \<and>
        optional_field str_validator p ''preferred_interval'' = Inr pi \<and>
        optional_field list_str_validator p ''pain_points'' = Inr pp \<and>
        optional_field str_validator p ''message'' = Inr m \<and>
        lead = build n e ph co lo ut uc ct pi pp m)"
  unfolding model_validate_def ap_Inr_iff by auto

text \<open>The result depends on the payload through the eleven declared keys only.\<close>

lemma model_validate_cong:
  assumes "\<And>k. k \<in> set model_fields \<Longrightarrow> p k = q k"
  shows "model_validate L p = model_validate L q"
proof -
  have "p ''name'' = q ''name''" "p ''email'' = q ''email''" "p ''phone'' = q ''phone''"
    "p ''company'' = q ''company''" "p ''location'' = q ''location''"
    "p ''unit_types'' = q ''unit_types''" "p ''units_count'' = q ''units_count''"
    "p ''capacity_tonnage'' = q ''capacity_tonnage''"
    "p ''preferred_interval'' = q ''preferred_interval''"
    "p ''pain_points'' = q ''pain_points''" "p ''message'' = q ''message''"
    using assms by (simp_all add: model_fields_def)
  then show ?thesis
    by (simp add: model_validate_def required_field_def optional_field_def)
qed

subsection \<open>Single fields\<close>

lemma required_str_present:
  "p k = Some (JStr s) \<Longrightarrow> required_field str_validator p k = Inr s"
  by (simp add: required_field_def at_field_def)

lemma required_str_Inr:
  assumes "required_field str_validator p k = Inr s"
  shows "p k = Some (JStr s)"
proof (cases "p k")
  case None
  with assms show ?thesis by (simp add: required_field_def)
next
  case (Some x)
  with assms show ?thesis
    by (cases x) (simp_all add: required_field_def at_field_def)
qed

lemma required_email_Inr:
  assumes "required_field (email_validator L) p k = Inr e"
  shows "\<exists>s. p k = Some (JStr s) \<and> validate_email L s = Some e"
proof (cases "p k")
  case None
  with assms show ?thesis by (simp add: required_field_def)
next
  case (Some x)
  with assms show ?thesis
    by (cases x)
      (simp_all add: required_field_def at_field_def email_validator_def split: option.splits)
qed

lemma errors_required_field:
  "e \<in> set (errors_of (required_field v p k)) \<Longrightarrow> hd (fst e) = Key k"
  by (auto simp: required_field_def at_field_def split: option.splits sum.splits)

lemma errors_optional_field:
  "e \<in> set (errors_of (optional_field v p k)) \<Longrightarrow> hd (fst e) = Key k"
  by (auto simp: optional_field_def at_field_def split: option.splits sum.splits)

lemma optional_field_absent_null:
  "optional_field v (p(k := None)) k' = optional_field v (p(k \<mapsto> JNull)) k'"
  by (simp add: optional_field_def at_field_def)

lemma optional_field_null: "p k = Some JNull \<Longrightarrow> optional_field v p k = Inr None"
  by (simp add: optional_field_def at_field_def)

lemma optional_field_absent: "p k = None \<Longrightarrow> optional_field v p k = Inr None"
  by (simp add: optional_field_def)

lemma required_field_other:
  "k' \<noteq> k \<Longrightarrow> required_field v (p(k := x)) k' = required_field v p k'"
  by (simp add: required_field_def)

text \<open>An integer passes the validator of \<^verbatim>\<open>units_count\<close> whatever its sign.\<close>

lemma units_count_int_accepted:
  "p ''units_count'' = Some (JInt i) \<Longrightarrow>
   optional_field (int_validator L) p ''units_count'' = Inr (Some i)"
  by (simp add: optional_field_def at_field_def)

text \<open>What the validator of \<^verbatim>\<open>units_count\<close> rejects: lists, objects, and the texts
  and floats that the library conversions reject. A payload with such a value is not
  accepted.\<close>

lemma int_validator_rejects:
  "int_validator L (JList xs) = Inl [([], ''int_type'')]"
  "int_validator L (JObj kvs) = Inl [([], ''int_type'')]"
  "str_as_int L s = Inl r \<Longrightarrow> int_validator L (JStr s) = Inl [([], r)]"
  "float_as_int L x = Inl r \<Longrightarrow> int_validator L (JFloat x) = Inl [([], r)]"
  by simp_all

lemma units_count_invalid_rejected:
  assumes "p ''units_count'' = Some x" and "x \<noteq> JNull" and "int_validator L x = Inl es"
  shows "\<exists>es'. model_validate L p = Inl es'"
proof -
  have "optional_field (int_validator L) p ''units_count'' =
      Inl (map (\<lambda>(l, ru). (Key ''units_count'' # l, ru)) es)"
    using assms by (cases x) (simp_all add: optional_field_def at_field_def)
  then have "\<not> (\<exists>lead. model_validate L p = Inr lead)"
    unfolding model_validate_Inr_iff by simp
  then show ?thesis by (cases "model_validate L p") auto
qed

lemma optional_fields_disj:
  assumes "k \<in> set optional_fields"
  shows "k = ''phone'' \<or> k = ''company'' \<or> k = ''location'' \<or> k = ''unit_types'' \<or>
     k = ''units_count'' \<or> k = ''capacity_tonnage'' \<or> k = ''preferred_interval'' \<or>
     k = ''pain_points'' \<or> k = ''message''"
  using assms unfolding optional_fields_def
  by (simp only: list.set insert_iff empty_iff simp_thms)

lemma optional_not_required:
  "k \<in> set optional_fields \<Longrightarrow> ''name'' \<noteq> k \<and> ''email'' \<noteq> k"
  by (drule optional_fields_disj) (elim disjE; simp)

subsection \<open>The dumped document\<close>

lemma model_dump_keys: "map fst (model_dump l) = model_fields"
  by (simp add: model_dump_def model_fields_def)

lemma model_dump_key_set: "fst ` set (model_dump l) = set model_fields"
proof -
  have "set (map fst (model_dump l)) = set model_fields"
    by (simp only: model_dump_keys)
  then show ?thesis by (simp only: set_map)
qed

lemma map_of_model_dump_optional:
  "map_of (model_dump (build n e ph co lo ut uc ct pi pp m)) ''phone'' = Some (dump_opt DStr ph)"
  "map_of (model_dump (build n e ph co lo ut uc ct pi pp m)) ''company'' = Some (dump_opt DStr co)"
  "map_of (model_dump (build n e ph co lo ut uc ct pi pp m)) ''location'' = Some (dump_opt DStr lo)"
  "map_of (model_dump (build n e ph co lo ut uc ct pi pp m)) ''unit_types'' = Some (dump_opt dump_strs ut)"
  "map_of (model_dump (build n e ph co lo ut uc ct pi pp m)) ''units_count'' = Some (dump_opt DInt uc)"
  "map_of (model_dump (build n e ph co lo ut uc ct pi pp m)) ''capacity_tonnage'' = Some (dump_opt DStr ct)"
  "map_of (model_dump (build n e ph co lo ut uc ct pi pp m)) ''preferred_interval'' = Some (dump_opt DStr pi)"
  "map_of (model_dump (build n e ph co lo ut uc ct pi pp m)) ''pain_points'' = Some (dump_opt dump_strs pp)"
  "map_of (model_dump (build n e ph co lo ut uc ct pi pp m)) ''message'' = Some (dump_opt DStr m)"
  by (simp_all add: model_dump_def build_def)

text \<open>An optional field that is absent or \<^verbatim>\<open>null\<close> in an accepted payload is
  \<^verbatim>\<open>None\<close> in the document.\<close>

lemma not_provided_dumped:
  assumes k: "k \<in> set optional_fields"
    and pk: "p k = None \<or> p k = Some JNull"
    and v: "model_validate L p = Inr lead"
  shows "map_of (model_dump lead) k = Some DNone"
proof -
  have o: "optional_field str_validator p k = Inr None"
    "optional_field list_str_validator p k = Inr None"
    "optional_field (int_validator L) p k = Inr None"
    using pk by (auto simp: optional_field_null optional_field_absent)
  from v obtain n e ph co lo ut uc ct pi pp m where
    f: "optional_field str_validator p ''phone'' = Inr ph"
        "optional_field str_validator p ''company'' = Inr co"
        "optional_field str_validator p ''location'' = Inr lo"
        "optional_field list_str_validator p ''unit_types'' = Inr ut"
        "optional_field (int_validator L) p ''units_count'' = Inr uc"
        "optional_field str_validator p ''capacity_tonnage'' = Inr ct"
        "optional_field str_validator p ''preferred_interval'' = Inr pi"
        "optional_field list_str_validator p ''pain_points'' = Inr pp"
        "optional_field str_validator p ''message'' = Inr m"
    and l: "lead = build n e ph co lo ut uc ct pi pp m"
    unfolding model_validate_Inr_iff by blast
  note d = optional_fields_disj [OF k]
  show ?thesis
    using d
  proof (elim disjE)
    assume c: "k = ''phone''"
    with o f(1) have "ph = None" by simp
    with c l show ?thesis by (simp add: map_of_model_dump_optional dump_opt_def)
  next
    assume c: "k = ''company''"
    with o f(2) have "co = None" by simp
    with c l show ?thesis by (simp add: map_of_model_dump_optional dump_opt_def)
  next
    assume c: "k = ''location''"
    with o f(3) have "lo = None" by simp
    with c l show ?thesis by (simp add: map_of_model_dump_optional dump_opt_def)
  next
    assume c: "k = ''unit_types''"
    with o f(4) have "ut = None" by simp
    with c l show ?thesis by (simp add: map_of_model_dump_optional dump_opt_def)
  next
    assume c: "k = ''units_count''"
    with o f(5) have "uc = None" by simp
    with c l show ?thesis by (simp add: map_of_model_dump_optional dump_opt_def)
  next
    assume c: "k = ''capacity_tonnage''"
    with o f(6) have "ct = None" by simp
    with c l show ?thesis by (simp add: map_of_model_dump_optional dump_opt_def)
  next
    assume c: "k = ''preferred_interval''"
    with o f(7) have "pi = None" by simp
    with c l show ?thesis by (simp add: map_of_model_dump_optional dump_opt_def)
  next
    assume c: "k = ''pain_points''"
    with o f(8) have "pp = None" by simp
    with c l show ?thesis by (simp add: map_of_model_dump_optional dump_opt_def)
  next
    assume c: "k = ''message''"
    with o f(9) have "m = None" by simp
    with c l show ?thesis by (simp add: map_of_model_dump_optional dump_opt_def)
  qed
qed

subsection \<open>The handler and the endpoint\<close>

lemma post_rejected:
  "model_validate L p = Inl es \<Longrightarrow>
   post_api_leads L cd p w =
     (RequestValidationError (map (\<lambda>(l, r). (Key ''body'' # l, r)) es), w)"
  by (simp add: post_api_leads_def)

lemma store_failure_response:
  assumes "model_validate L p = Inr lead"
    and "cd ''lead'' (model_dump lead) (store w) = (Inl msg, s')"
  shows "post_api_leads L cd p w =
           (Sent \<lparr>status_code = 500, body = [(''detail'', BStr msg)]\<rparr>,
            \<lparr>store = s', calls = calls w @ [(''lead'', model_dump lead)]\<rparr>)"
  using assms
  by (simp add: post_api_leads_def create_lead_def call_create_document_def render_def)

lemma create_lead_calls:
  "calls (snd (create_lead cd lead w)) = calls w @ [(''lead'', model_dump lead)]"
  by (simp add: create_lead_def call_create_document_def split: prod.splits sum.splits)

lemma create_lead_store:
  "store (snd (create_lead cd lead w)) = snd (cd ''lead'' (model_dump lead) (store w))"
  by (simp add: create_lead_def call_create_document_def split: prod.splits sum.splits)

lemma post_accepted_calls:
  "model_validate L p = Inr lead \<Longrightarrow>
   calls (snd (post_api_leads L cd p w)) = calls w @ [(''lead'', model_dump lead)]"
  using create_lead_calls [of cd lead w]
  by (auto simp: post_api_leads_def split: prod.splits)

lemma post_accepted_store:
  "model_validate L p = Inr lead \<Longrightarrow>
   store (snd (post_api_leads L cd p w)) = snd (cd ''lead'' (model_dump lead) (store w))"
  using create_lead_store [of cd lead w]
  by (cases "create_lead cd lead w") (simp add: post_api_leads_def)

subsection \<open>The scenarios, evaluated\<close>

lemmas validate_eval = model_validate_def required_field_def optional_field_def at_field_def
  email_validator_def example_coercions_def

lemma validate_empty_name:
  "model_validate example_coercions empty_name_payload = Inr empty_name_lead"
  by (simp add: validate_eval empty_name_payload_def empty_name_lead_def)

lemma validate_jane:
  "model_validate example_coercions jane_payload = Inr jane_lead"
  by (simp add: validate_eval jane_payload_def jane_lead_def)

lemma validate_malformed:
  "model_validate example_coercions malformed_email_payload =
     Inl [([Key ''email''], ''value_error'')]"
  by (simp add: validate_eval malformed_email_payload_def)

lemma validate_negative_units:
  "model_validate example_coercions negative_units_payload = Inr negative_units_lead"
  by (simp add: validate_eval negative_units_payload_def negative_units_lead_def)

section \<open>The claims\<close>

subsection \<open>C1: a payload whose name is the empty string\<close>

text \<open>
  C1 as stated: for every payload whose \<^verbatim>\<open>name\<close> is present and is the empty string
  (such as \<^verbatim>\<open>{name: "", email: "jane@example.com"}\<close>), validation fails with an error
  on field \<^verbatim>\<open>name\<close>, no insert is attempted and a client error is returned.
  \<^verbatim>\<open>LeadRequest\<close> declares \<^verbatim>\<open>name: str\<close> without a length constraint, so this does
  not hold. At the payload of the scenario validation succeeds, the endpoint answers
  200 with \<^verbatim>\<open>{status: "success", id: 0}\<close> and \<^verbatim>\<open>create_document\<close> has been called
  once.
\<close>

theorem empty_name_counterexample:
  "\<not> isl (model_validate example_coercions empty_name_payload) \<and>
   fst (post_api_leads example_coercions memory_store empty_name_payload empty_world) =
     Sent \<lparr>status_code = 200, body = [(''status'', BStr ''success''), (''id'', BId 0)]\<rparr> \<and>
   calls (snd (post_api_leads example_coercions memory_store empty_name_payload empty_world)) =
     [(''lead'', model_dump empty_name_lead)]"
proof -
  have "memory_store ''lead'' (model_dump empty_name_lead) [] =
      (Inr 0, [(''lead'', model_dump empty_name_lead)])"
    by (simp add: memory_store_def)
  then show ?thesis
    by (simp add: validate_empty_name post_api_leads_def create_lead_def
        call_create_document_def render_def empty_world_def)
qed

text \<open>
  C1 as amended: for every payload whose \<^verbatim>\<open>name\<close> is present and is the empty string,
  validation reports no error for field \<^verbatim>\<open>name\<close>; when validation succeeds the lead
  has the empty name and the endpoint calls \<^verbatim>\<open>create_document\<close> once, with collection
  \<^verbatim>\<open>lead\<close> and that lead's document.
\<close>

theorem empty_name_accepted:
  assumes "p ''name'' = Some (JStr [])"
  shows "(\<forall>e \<in> set (errors_of (model_validate L p)). hd (fst e) \<noteq> Key ''name'') \<and>
         (\<forall>lead. model_validate L p = Inr lead \<longrightarrow>
            name lead = [] \<and>
            calls (snd (post_api_leads L cd p w)) = calls w @ [(''lead'', model_dump lead)])"
proof (intro conjI ballI allI impI)
  fix e assume e: "e \<in> set (errors_of (model_validate L p))"
  have n: "errors_of (required_field str_validator p ''name'') = []"
    using assms by (simp add: required_str_present)
  from e n show "hd (fst e) \<noteq> Key ''name''"
    unfolding errors_of_model_validate
    by (auto dest!: errors_required_field errors_optional_field)
next
  fix lead assume v: "model_validate L p = Inr lead"
  then show "name lead = []"
    using assms by (auto simp: model_validate_Inr_iff required_str_present build_def)
  from v show "calls (snd (post_api_leads L cd p w)) = calls w @ [(''lead'', model_dump lead)]"
    by (rule post_accepted_calls)
qed

text \<open>The amended C1 at the payload of the scenario, with the store that keeps its
  documents in a list.\<close>

theorem empty_name_accepted_witness:
  "empty_name_payload ''name'' = Some (JStr []) \<and>
   model_validate example_coercions empty_name_payload = Inr empty_name_lead \<and>
   name empty_name_lead = [] \<and>
   calls (snd (post_api_leads example_coercions memory_store empty_name_payload empty_world)) =
     [(''lead'', model_dump empty_name_lead)]"
proof -
  have h: "empty_name_payload ''name'' = Some (JStr [])"
    by (simp add: empty_name_payload_def)
  show ?thesis
    using h validate_empty_name
      empty_name_accepted [where p = empty_name_payload and L = example_coercions
        and cd = memory_store and w = empty_world]
    by (simp add: empty_world_def)
qed

subsection \<open>C2: a negative \<^verbatim>\<open>units_count\<close>\<close>

text \<open>
  C2 says that a payload whose \<^verbatim>\<open>units_count\<close> is negative fails validation and is
  never persisted. \<^verbatim>\<open>LeadRequest.units_count\<close> is \<^verbatim>\<open>Optional[int] = None\<close>; the
  bound \<^verbatim>\<open>ge=0\<close> stands only in \<^verbatim>\<open>schemas.Lead\<close>, which the endpoint does not use.
  The payload \<^verbatim>\<open>{name: "Jane Doe", email: "jane@example.com", units_count: -5}\<close> is
  accepted with \<^verbatim>\<open>units_count = -5\<close> and its document is handed to
  \<^verbatim>\<open>create_document\<close>.
\<close>

theorem negative_units_count_accepted:
  "model_validate example_coercions negative_units_payload = Inr negative_units_lead \<and>
   units_count negative_units_lead = Some (- 5) \<and>
   post_api_leads example_coercions memory_store negative_units_payload empty_world =
     (Sent \<lparr>status_code = 200, body = [(''status'', BStr ''success''), (''id'', BId 0)]\<rparr>,
      \<lparr>store = [(''lead'', model_dump negative_units_lead)],
       calls = [(''lead'', model_dump negative_units_lead)]\<rparr>) \<and>
   map_of (model_dump negative_units_lead) ''units_count'' = Some (DInt (- 5))"
proof -
  have "memory_store ''lead'' (model_dump negative_units_lead) [] =
      (Inr 0, [(''lead'', model_dump negative_units_lead)])"
    by (simp add: memory_store_def)
  moreover have "units_count negative_units_lead = Some (- 5)"
    by (simp add: negative_units_lead_def build_def)
  moreover have "map_of (model_dump negative_units_lead) ''units_count'' = Some (DInt (- 5))"
    by (simp add: negative_units_lead_def map_of_model_dump_optional dump_opt_def)
  ultimately show ?thesis
    by (simp add: validate_negative_units post_api_leads_def create_lead_def
        call_create_document_def render_def empty_world_def)
qed

subsection \<open>C3: missing name, missing email, malformed email\<close>

text \<open>
  C3: for every payload that is missing \<^verbatim>\<open>name\<close>, missing \<^verbatim>\<open>email\<close>, or whose
  \<^verbatim>\<open>email\<close> is present but is not a text that the address check accepts (a text it
  rejects, or a value that is no text at all: a number, \<^verbatim>\<open>null\<close>, a list, an object),
  validation fails with a (non-empty) ValidationError and the world after the request
  is the world before it: \<^verbatim>\<open>create_document\<close> has not been called.
\<close>

theorem missing_or_malformed_rejected:
  assumes "p ''name'' = None \<or> p ''email'' = None \<or>
           (\<exists>x. p ''email'' = Some x \<and> \<not> (\<exists>s e. x = JStr s \<and> validate_email L s = Some e))"
  shows "\<exists>es. model_validate L p = Inl es \<and> es \<noteq> [] \<and>
           snd (post_api_leads L cd p w) = w"
proof -
  have "errors_of (required_field str_validator p ''name'') \<noteq> [] \<or>
        errors_of (required_field (email_validator L) p ''email'') \<noteq> []"
    using assms
  proof (elim disjE exE conjE)
    assume "p ''name'' = None"
    then show ?thesis by (simp add: required_field_def)
  next
    assume "p ''email'' = None"
    then show ?thesis by (simp add: required_field_def)
  next
    fix x
    assume x: "p ''email'' = Some x"
      and n: "\<not> (\<exists>s e. x = JStr s \<and> validate_email L s = Some e)"
    have "isl (email_validator L x)"
    proof (cases x)
      case (JStr s)
      with n have "validate_email L s = None" by (cases "validate_email L s") auto
      with JStr show ?thesis by (simp add: email_validator_def)
    qed (simp_all add: email_validator_def)
    then obtain es where "email_validator L x = Inl es" "es \<noteq> []"
      by (cases x) (auto simp: email_validator_def split: option.splits)
    with x show ?thesis by (simp add: required_field_def at_field_def)
  qed
  then have ne: "errors_of (model_validate L p) \<noteq> []"
    unfolding errors_of_model_validate by auto
  then obtain es where es: "model_validate L p = Inl es"
    by (cases "model_validate L p") auto
  with ne have "es \<noteq> []" by simp
  with es post_rejected [OF es, of cd w] show ?thesis by auto
qed

text \<open>C3 at \<^verbatim>\<open>{name: "Jane Doe", email: "not-an-email"}\<close>.\<close>

theorem missing_or_malformed_rejected_witness:
  "malformed_email_payload ''email'' = Some (JStr ''not-an-email'') \<and>
   validate_email example_coercions ''not-an-email'' = None \<and>
   model_validate example_coercions malformed_email_payload =
     Inl [([Key ''email''], ''value_error'')] \<and>
   snd (post_api_leads example_coercions memory_store malformed_email_payload empty_world) =
     empty_world"
proof -
  have h1: "malformed_email_payload ''email'' = Some (JStr ''not-an-email'')"
    by (simp add: malformed_email_payload_def)
  have h2: "validate_email example_coercions ''not-an-email'' = None"
    by (simp add: example_coercions_def)
  from h1 h2 have h: "malformed_email_payload ''name'' = None \<or>
      malformed_email_payload ''email'' = None \<or>
      (\<exists>x. malformed_email_payload ''email'' = Some x \<and>
           \<not> (\<exists>s e. x = JStr s \<and> validate_email example_coercions s = Some e))"
    by auto
  show ?thesis
    using h1 h2 validate_malformed
      missing_or_malformed_rejected [OF h, of memory_store empty_world]
    by auto
qed

subsection \<open>C4: the success path\<close>

text \<open>
  C4: for every payload that passes validation and for which the store's insert
  succeeds, the endpoint makes the one call \<^verbatim>\<open>create_document("lead", doc)\<close> and answers
  200 with \<^verbatim>\<open>{status: "success", id: i}\<close>, \<open>i\<close> being the identifier the store
  returned. The document \<open>doc\<close> holds the eleven fields of the validated lead, key by
  key and in declaration order: the name and the email as texts, every optional field as
  its value or \<^verbatim>\<open>None\<close>. The lead's name is the payload's name, and its email is what
  the address check made of the payload's email.
\<close>

theorem valid_payload_inserted:
  assumes "model_validate L p = Inr lead"
    and "cd ''lead'' (model_dump lead) (store w) = (Inr i, s')"
  shows "post_api_leads L cd p w =
           (Sent \<lparr>status_code = 200, body = [(''status'', BStr ''success''), (''id'', BId i)]\<rparr>,
            \<lparr>store = s', calls = calls w @ [(''lead'', model_dump lead)]\<rparr>) \<and>
         model_dump lead =
           [(''name'', DStr (name lead)),
            (''email'', DStr (email lead)),
            (''phone'', case phone lead of None \<Rightarrow> DNone | Some s \<Rightarrow> DStr s),
            (''company'', case company lead of None \<Rightarrow> DNone | Some s \<Rightarrow> DStr s),
            (''location'', case location lead of None \<Rightarrow> DNone | Some s \<Rightarrow> DStr s),
            (''unit_types'',
               case unit_types lead of None \<Rightarrow> DNone | Some xs \<Rightarrow> DList (map DStr xs)),
            (''units_count'', case units_count lead of None \<Rightarrow> DNone | Some n \<Rightarrow> DInt n),
            (''capacity_tonnage'',
               case capacity_tonnage lead of None \<Rightarrow> DNone | Some s \<Rightarrow> DStr s),
            (''preferred_interval'',
               case preferred_interval lead of None \<Rightarrow> DNone | Some s \<Rightarrow> DStr s),
            (''pain_points'',
               case pain_points lead of None \<Rightarrow> DNone | Some xs \<Rightarrow> DList (map DStr xs)),
            (''message'', case message lead of None \<Rightarrow> DNone | Some s \<Rightarrow> DStr s)] \<and>
         p ''name'' = Some (JStr (name lead)) \<and>
         (\<exists>s. p ''email'' = Some (JStr s) \<and> validate_email L s = Some (email lead))"
proof -
  from assms(1) obtain n e ph co lo ut uc ct pi pp m where
    rn: "required_field str_validator p ''name'' = Inr n"
    and re: "required_field (email_validator L) p ''email'' = Inr e"
    and l: "lead = build n e ph co lo ut uc ct pi pp m"
    unfolding model_validate_Inr_iff by blast
  from l have ne: "name lead = n" "email lead = e"
    by (simp_all add: build_def)
  have "p ''name'' = Some (JStr (name lead))"
    using required_str_Inr [OF rn] ne by simp
  moreover have "\<exists>s. p ''email'' = Some (JStr s) \<and> validate_email L s = Some (email lead)"
    using required_email_Inr [OF re] ne by simp
  moreover have "post_api_leads L cd p w =
           (Sent \<lparr>status_code = 200, body = [(''status'', BStr ''success''), (''id'', BId i)]\<rparr>,
            \<lparr>store = s', calls = calls w @ [(''lead'', model_dump lead)]\<rparr>)"
    using assms
    by (simp add: post_api_leads_def create_lead_def call_create_document_def render_def)
  moreover have "model_dump lead =
           [(''name'', DStr (name lead)),
            (''email'', DStr (email lead)),
            (''phone'', case phone lead of None \<Rightarrow> DNone | Some s \<Rightarrow> DStr s),
            (''company'', case company lead of None \<Rightarrow> DNone | Some s \<Rightarrow> DStr s),
            (''location'', case location lead of None \<Rightarrow> DNone | Some s \<Rightarrow> DStr s),
            (''unit_types'',
               case unit_types lead of None \<Rightarrow> DNone | Some xs \<Rightarrow> DList (map DStr xs)),
            (''units_count'', case units_count lead of None \<Rightarrow> DNone | Some n \<Rightarrow> DInt n),
            (''capacity_tonnage'',
               case capacity_tonnage lead of None \<Rightarrow> DNone | Some s \<Rightarrow> DStr s),
            (''preferred_interval'',
               case preferred_interval lead of None \<Rightarrow> DNone | Some s \<Rightarrow> DStr s),
            (''pain_points'',
               case pain_points lead of None \<Rightarrow> DNone | Some xs \<Rightarrow> DList (map DStr xs)),
            (''message'', case message lead of None \<Rightarrow> DNone | Some s \<Rightarrow> DStr s)]"
    by (simp add: model_dump_def dump_opt_def dump_strs_def split: option.splits)
  ultimately show ?thesis
    by (intro conjI)
qed

text \<open>C4 at \<^verbatim>\<open>{name: "Jane Doe", email: "jane@example.com"}\<close> and the empty list
  store.\<close>

theorem valid_payload_inserted_witness:
  "model_validate example_coercions jane_payload = Inr jane_lead \<and>
   memory_store ''lead'' (model_dump jane_lead) (store empty_world) =
     (Inr 0, [(''lead'', model_dump jane_lead)]) \<and>
   post_api_leads example_coercions memory_store jane_payload empty_world =
     (Sent \<lparr>status_code = 200, body = [(''status'', BStr ''success''), (''id'', BId 0)]\<rparr>,
      \<lparr>store = [(''lead'', model_dump jane_lead)], calls = [(''lead'', model_dump jane_lead)]\<rparr>) \<and>
   model_dump jane_lead =
     [(''name'', DStr ''Jane Doe''), (''email'', DStr ''jane@example.com''),
      (''phone'', DNone), (''company'', DNone), (''location'', DNone), (''unit_types'', DNone),
      (''units_count'', DNone), (''capacity_tonnage'', DNone), (''preferred_interval'', DNone),
      (''pain_points'', DNone), (''message'', DNone)]"
proof -
  have h: "memory_store ''lead'' (model_dump jane_lead) (store empty_world) =
     (Inr 0, [(''lead'', model_dump jane_lead)])"
    by (simp add: memory_store_def empty_world_def)
  have f: "name jane_lead = ''Jane Doe''" "email jane_lead = ''jane@example.com''"
    "phone jane_lead = None" "company jane_lead = None" "location jane_lead = None"
    "unit_types jane_lead = None" "units_count jane_lead = None"
    "capacity_tonnage jane_lead = None" "preferred_interval jane_lead = None"
    "pain_points jane_lead = None" "message jane_lead = None"
    by (simp_all add: jane_lead_def build_def)
  show ?thesis
    using h validate_jane
      valid_payload_inserted [where L = example_coercions and p = jane_payload
        and lead = jane_lead and cd = memory_store and w = empty_world]
    by (simp add: empty_world_def f)
qed

subsection \<open>C5: the store raises\<close>

text \<open>
  C5 says that when the insert raises, the endpoint answers 500 with a
  \<^verbatim>\<open>{detail: string}\<close> body, returns no identifier, and leaks nothing of the store
  beyond a short message. The status, the shape of the body and the absence of an
  identifier hold (lemma \<open>store_failure_response\<close>). The last part does not:
  \<^verbatim>\<open>create_lead\<close> sends \<^verbatim>\<open>str(e)\<close> whole, where the sibling \<^verbatim>\<open>test_database\<close> cuts
  it to 50 characters. With a store that raises a driver's timeout text of 244
  characters, naming the host, the port and the topology, the body's \<^verbatim>\<open>detail\<close> is
  that whole text, not its first 50 characters.
\<close>

theorem store_error_text_forwarded:
  "post_api_leads example_coercions timeout_store jane_payload empty_world =
     (Sent \<lparr>status_code = 500, body = [(''detail'', BStr store_error_text)]\<rparr>,
      \<lparr>store = [], calls = [(''lead'', model_dump jane_lead)]\<rparr>) \<and>
   length store_error_text = 244 \<and>
   test_database_error_text store_error_text =
     ''db-prod-1.internal:27017: [Errno 111] Connection r'' \<and>
   test_database_error_text store_error_text \<noteq> store_error_text"
proof -
  have t: "timeout_store ''lead'' (model_dump jane_lead) (store empty_world) =
      (Inl store_error_text, [])"
    by (simp add: timeout_store_def empty_world_def)
  have r: "post_api_leads example_coercions timeout_store jane_payload empty_world =
     (Sent \<lparr>status_code = 500, body = [(''detail'', BStr store_error_text)]\<rparr>,
      \<lparr>store = [], calls = [(''lead'', model_dump jane_lead)]\<rparr>)"
    using validate_jane t
      store_failure_response [where L = example_coercions and p = jane_payload
        and lead = jane_lead and cd = timeout_store and w = empty_world]
    by (simp add: empty_world_def)
  have n: "length store_error_text = 244"
    by (simp add: store_error_text_def)
  have c: "test_database_error_text store_error_text =
     ''db-prod-1.internal:27017: [Errno 111] Connection r''"
    by (simp add: test_database_error_text_def store_error_text_def)
  have "length (test_database_error_text store_error_text) = 50"
    by (simp add: c)
  with n have "test_database_error_text store_error_text \<noteq> store_error_text"
    by auto
  with r n c show ?thesis by simp
qed

subsection \<open>C6: absent and null optional fields\<close>

text \<open>
  C6: for every payload and every optional field, validation gives the same result,
  and the endpoint does the same, whether the field is absent or present with the value
  \<^verbatim>\<open>null\<close>; when the payload is accepted the document holds \<^verbatim>\<open>None\<close> for that field.
\<close>

theorem absent_equals_null:
  assumes "k \<in> set optional_fields"
  shows "model_validate L (p(k := None)) = model_validate L (p(k \<mapsto> JNull)) \<and>
         post_api_leads L cd (p(k := None)) w = post_api_leads L cd (p(k \<mapsto> JNull)) w \<and>
         (\<forall>lead. model_validate L (p(k \<mapsto> JNull)) = Inr lead \<longrightarrow>
            map_of (model_dump lead) k = Some DNone)"
proof -
  from assms have k: "''name'' \<noteq> k" "''email'' \<noteq> k"
    by (simp_all add: optional_not_required)
  have e: "model_validate L (p(k := None)) = model_validate L (p(k \<mapsto> JNull))"
    unfolding model_validate_def
    by (simp only: optional_field_absent_null required_field_other [OF k(1)]
        required_field_other [OF k(2)])
  have "map_of (model_dump lead) k = Some DNone"
    if "model_validate L (p(k \<mapsto> JNull)) = Inr lead" for lead
    using assms _ that by (rule not_provided_dumped) simp
  with e show ?thesis by (simp add: post_api_leads_def)
qed

text \<open>C6 at field \<^verbatim>\<open>phone\<close> of \<^verbatim>\<open>{name: "Jane Doe", email: "jane@example.com"}\<close>.\<close>

theorem absent_equals_null_witness:
  "''phone'' \<in> set optional_fields \<and>
   model_validate example_coercions (jane_payload(''phone'' := None)) = Inr jane_lead \<and>
   model_validate example_coercions (jane_payload(''phone'' \<mapsto> JNull)) = Inr jane_lead \<and>
   map_of (model_dump jane_lead) ''phone'' = Some DNone"
proof -
  have h: "''phone'' \<in> set optional_fields"
    by (simp add: optional_fields_def)
  have v: "model_validate example_coercions (jane_payload(''phone'' := None)) = Inr jane_lead"
    by (simp add: validate_eval jane_payload_def jane_lead_def)
  show ?thesis
    using h v
      absent_equals_null [where k = "''phone''" and L = example_coercions
        and p = jane_payload and cd = memory_store and w = empty_world]
    by simp
qed

subsection \<open>C7: scenario 1\<close>

text \<open>
  C7: for the payload \<^verbatim>\<open>{name: "Jane Doe", email: "jane@example.com"}\<close>, given that the
  address check accepts the address (as \<open>e\<close>), validation succeeds with every optional
  field \<^verbatim>\<open>None\<close>, the insert is attempted, and when the store returns the identifier
  \<open>i\<close> the answer is 200 with \<^verbatim>\<open>{status: "success", id: i}\<close>.
\<close>

theorem scenario_jane_doe:
  assumes "validate_email L ''jane@example.com'' = Some e"
    and "cd ''lead'' (model_dump (build ''Jane Doe'' e None None None None None None None None None))
           (store w) = (Inr i, s')"
  shows "model_validate L jane_payload =
           Inr (build ''Jane Doe'' e None None None None None None None None None) \<and>
         post_api_leads L cd jane_payload w =
           (Sent \<lparr>status_code = 200, body = [(''status'', BStr ''success''), (''id'', BId i)]\<rparr>,
            \<lparr>store = s', calls = calls w @
               [(''lead'', model_dump (build ''Jane Doe'' e None None None None None None None None None))]\<rparr>)"
proof -
  have v: "model_validate L jane_payload =
           Inr (build ''Jane Doe'' e None None None None None None None None None)"
    using assms(1)
    by (simp add: model_validate_def jane_payload_def required_field_def optional_field_def
        at_field_def email_validator_def)
  from v assms(2) show ?thesis
    by (simp add: post_api_leads_def create_lead_def call_create_document_def render_def)
qed

text \<open>C7 with the address accepted unchanged and the empty list store.\<close>

theorem scenario_jane_doe_witness:
  "validate_email example_coercions ''jane@example.com'' = Some ''jane@example.com'' \<and>
   model_validate example_coercions jane_payload =
     Inr (build ''Jane Doe'' ''jane@example.com'' None None None None None None None None None) \<and>
   post_api_leads example_coercions memory_store jane_payload empty_world =
     (Sent \<lparr>status_code = 200, body = [(''status'', BStr ''success''), (''id'', BId 0)]\<rparr>,
      \<lparr>store = [(''lead'', model_dump jane_lead)], calls = [(''lead'', model_dump jane_lead)]\<rparr>)"
proof -
  have h1: "validate_email example_coercions ''jane@example.com'' = Some ''jane@example.com''"
    by (simp add: example_coercions_def)
  have h2: "memory_store ''lead''
      (model_dump (build ''Jane Doe'' ''jane@example.com'' None None None None None None None None None))
      (store empty_world) = (Inr 0, [(''lead'', model_dump jane_lead)])"
    by (simp add: memory_store_def empty_world_def jane_lead_def)
  show ?thesis
    using h1 h2
      scenario_jane_doe [where L = example_coercions and cd = memory_store
        and w = empty_world and e = "''jane@example.com''"]
    by (simp add: empty_world_def jane_lead_def)
qed

subsection \<open>C9: keys that are not declared\<close>

text \<open>
  C9: for every payload and every key that is not one of the eleven declared fields,
  adding the key changes neither the result of validation nor what the endpoint does,
  and the document of an accepted payload has exactly the eleven declared keys, so the
  extra key is not in it.
\<close>

theorem extra_keys_ignored:
  assumes "k \<notin> set model_fields"
  shows "model_validate L (p(k \<mapsto> v)) = model_validate L p \<and>
         post_api_leads L cd (p(k \<mapsto> v)) w = post_api_leads L cd p w \<and>
         (\<forall>lead. model_validate L (p(k \<mapsto> v)) = Inr lead \<longrightarrow>
            map fst (model_dump lead) = model_fields \<and> map_of (model_dump lead) k = None)"
proof -
  have e: "model_validate L (p(k \<mapsto> v)) = model_validate L p"
  proof (rule model_validate_cong)
    fix k' assume "k' \<in> set model_fields"
    with assms have "k' \<noteq> k" by blast
    then show "(p(k \<mapsto> v)) k' = p k'" by simp
  qed
  have "map_of (model_dump lead) k = None" for lead
    using assms by (simp add: map_of_eq_None_iff model_dump_key_set)
  with e show ?thesis by (simp add: post_api_leads_def model_dump_keys)
qed

text \<open>C9 at \<^verbatim>\<open>{name: "Jane Doe", email: "jane@example.com", utm_source: "ad"}\<close>.\<close>

theorem extra_keys_ignored_witness:
  "''utm_source'' \<notin> set model_fields \<and>
   model_validate example_coercions (jane_payload(''utm_source'' \<mapsto> JStr ''ad'')) = Inr jane_lead \<and>
   map fst (model_dump jane_lead) = model_fields \<and>
   map_of (model_dump jane_lead) ''utm_source'' = None"
proof -
  have h: "''utm_source'' \<notin> set model_fields"
    by (simp add: model_fields_def)
  show ?thesis
    using h validate_jane
      extra_keys_ignored [where k = "''utm_source''" and L = example_coercions
        and p = jane_payload and v = "JStr ''ad''" and cd = memory_store and w = empty_world]
    by simp
qed

subsection \<open>C10: one store call per handler invocation\<close>

text \<open>
  C10: every invocation of \<^verbatim>\<open>create_lead\<close> calls \<^verbatim>\<open>create_document\<close> exactly once,
  with collection \<^verbatim>\<open>lead\<close>, whether the call returns or raises; the state of the store
  afterwards is the one that this call left, so nothing else reads or writes it; and a
  request to the endpoint makes at most one call.
\<close>

theorem one_store_call_per_request:
  "calls (snd (create_lead cd lead w)) = calls w @ [(''lead'', model_dump lead)] \<and>
   store (snd (create_lead cd lead w)) = snd (cd ''lead'' (model_dump lead) (store w)) \<and>
   length (calls (snd (post_api_leads L cd p w))) \<le> Suc (length (calls w))"
proof -
  have "length (calls (snd (post_api_leads L cd p w))) \<le> Suc (length (calls w))"
  proof (cases "model_validate L p")
    case (Inl es)
    then show ?thesis by (simp add: post_rejected)
  next
    case (Inr l)
    then show ?thesis by (simp add: post_accepted_calls)
  qed
  then show ?thesis by (simp add: create_lead_calls create_lead_store)
qed

end
